theory Spec2Isabelle
  imports Main
begin

section \<open>Routes utility: the store and its data-access layer\<close>

text \<open>
  The program (\<^verbatim>\<open>Progs/individual.py\<close>) keeps travel routes in an SQLite file with
  two tables, \<^verbatim>\<open>start\<close> and \<open>route\<close>, and offers four data-access
  functions (\<^verbatim>\<open>create_db\<close>, \<^verbatim>\<open>add_route\<close>, \<^verbatim>\<open>select_all\<close>,
  \<^verbatim>\<open>select_route\<close>) and one formatter (\<^verbatim>\<open>display_routes\<close>).

  A Python \<^verbatim>\<open>str\<close> is a sequence of Unicode code points; it is modelled as a list
  of code-point numbers, so that \<open>length\<close> is Python's \<^verbatim>\<open>len\<close>. \<open>ascii\<close> turns an
  ASCII literal into such a string.
\<close>

type_synonym str = "nat list"

definition ascii :: "string \<Rightarrow> str" where
  "ascii s = map of_char s"

subsection \<open>Tables, rows and the file\<close>

text \<open>
  \<^verbatim>\<open>
  CREATE TABLE IF NOT EXISTS start (
      name_id INTEGER PRIMARY KEY AUTOINCREMENT,
      start_point TEXT NOT NULL)
  CREATE TABLE IF NOT EXISTS route (
      route_id INTEGER PRIMARY KEY AUTOINCREMENT,
      name_id INTEGER NOT NULL,
      first_station TEXT NOT NULL,
      second_station TEXT NOT NULL,
      FOREIGN KEY(name_id) REFERENCES start(name_id))
  \<close>
  The column \<^verbatim>\<open>route.name_id\<close> is the field \<open>route_name_id\<close> (a record field name
  is global). A table is the list of its rows in storage order together with
  the counter that \<^verbatim>\<open>AUTOINCREMENT\<close> keeps for it in \<^verbatim>\<open>sqlite_sequence\<close>. The file
  holds each of the two tables or not (\<open>None\<close>: the table has not been created). The
  foreign key is declared but SQLite does not enforce it unless the connection turns
  \<^verbatim>\<open>PRAGMA foreign_keys\<close> on, which the program never does; the model enforces nothing
  either.
\<close>

record start_row =
  name_id :: int
  start_point :: str

record route_row =
  route_id :: int
  route_name_id :: int
  first_station :: str
  second_station :: str

record 'r table =
  rows :: "'r list"
  sequence :: int

record database =
  start :: "start_row table option"
  route :: "route_row table option"

text \<open>A path at which no file exists yet: \<^verbatim>\<open>sqlite3.connect\<close> creates an empty database.\<close>

definition new_file :: database where
  "new_file = \<lparr>start = None, route = None\<rparr>"

definition empty_table :: "'r table" where
  "empty_table = \<lparr>rows = [], sequence = 0\<rparr>"

definition start_rows :: "database \<Rightarrow> start_row list" where
  "start_rows d = (case start d of None \<Rightarrow> [] | Some t \<Rightarrow> rows t)"

definition route_rows :: "database \<Rightarrow> route_row list" where
  "route_rows d = (case route d of None \<Rightarrow> [] | Some t \<Rightarrow> rows t)"

text \<open>
  The first two failures surface in Python as \<^verbatim>\<open>sqlite3.OperationalError\<close>; the third is
  Python's own \<^verbatim>\<open>UnicodeEncodeError\<close>.
\<close>

datatype error =
  NoSuchTable string
  | DatabaseFull
  | UnicodeEncodeError

text \<open>
  A string bound to a \<^verbatim>\<open>?\<close> of a statement is handed to SQLite as UTF-8. A Python
  \<^verbatim>\<open>str\<close> may hold a lone surrogate (a code point from U+D800 to U+DFFF; the command
  line yields one for a byte that is not UTF-8), which has no UTF-8 encoding: binding such
  a string raises.
\<close>

definition encodable :: "str \<Rightarrow> bool" where
  "encodable s = list_all (\<lambda>c. c < 55296 \<or> 57343 < c) s"

subsection \<open>Row identifiers\<close>

text \<open>
  A row identifier is a signed 64-bit integer. For an \<^verbatim>\<open>AUTOINCREMENT\<close> table SQLite
  gives a new row one more than the largest identifier the table holds or has ever
  handed out (the counter), starting at 1, and fails with \<^verbatim>\<open>SQLITE_FULL\<close> once
  the largest possible identifier has been used.
\<close>

definition MAX_ROWID :: int where
  "MAX_ROWID = 9223372036854775807"

fun largest :: "int list \<Rightarrow> int option" where
  "largest [] = None"
| "largest (i # is) = (case largest is of None \<Rightarrow> Some i | Some m \<Rightarrow> Some (max i m))"

definition new_rowid :: "int list \<Rightarrow> int \<Rightarrow> error + int" where
  "new_rowid ids counter =
     (case largest ids of
        None \<Rightarrow>
          if counter = MAX_ROWID then Inl DatabaseFull else Inr (max 1 (counter + 1))
      | Some m \<Rightarrow>
          if MAX_ROWID \<le> m \<or> counter = MAX_ROWID then Inl DatabaseFull
          else Inr (max (m + 1) (counter + 1)))"

subsection \<open>Connections and statements\<close>

text \<open>
  \<^verbatim>\<open>sqlite3.connect\<close> opens the file. The connection sees the file's contents plus its
  own pending changes. Python's \<^verbatim>\<open>sqlite3\<close> opens a transaction implicitly before an
  \<^verbatim>\<open>INSERT\<close>; \<^verbatim>\<open>CREATE TABLE\<close> outside a transaction is committed at once.
  \<^verbatim>\<open>commit\<close> writes the pending changes to the file, \<^verbatim>\<open>close\<close> drops them.
  \<^verbatim>\<open>cursor.execute\<close> first compiles the statement (a missing table raises here), then
  binds the parameters (a string that cannot be encoded raises here), then runs it.
\<close>

record connection =
  committed :: database
  pending :: database
  in_transaction :: bool

definition connect :: "database \<Rightarrow> connection" where
  "connect database_path = \<lparr>committed = database_path, pending = database_path, in_transaction = False\<rparr>"

definition commit :: "connection \<Rightarrow> connection" where
  "commit conn = conn\<lparr>committed := pending conn, in_transaction := False\<rparr>"

definition close :: "connection \<Rightarrow> database" where
  "close conn = committed conn"

definition execute_ddl :: "(database \<Rightarrow> database) \<Rightarrow> connection \<Rightarrow> connection" where
  "execute_ddl change conn =
     (if in_transaction conn then conn\<lparr>pending := change (pending conn)\<rparr>
      else conn\<lparr>committed := change (pending conn), pending := change (pending conn)\<rparr>)"

definition execute_dml :: "(database \<Rightarrow> database) \<Rightarrow> connection \<Rightarrow> connection" where
  "execute_dml change conn = conn\<lparr>pending := change (pending conn), in_transaction := True\<rparr>"

text \<open>\<^verbatim>\<open>CREATE TABLE IF NOT EXISTS start (...)\<close> and the same for \<^verbatim>\<open>route\<close>.\<close>

definition create_table_start :: "connection \<Rightarrow> connection" where
  "create_table_start conn =
     (case start (pending conn) of
        Some t \<Rightarrow> conn
      | None \<Rightarrow> execute_ddl (\<lambda>d. d\<lparr>start := Some empty_table\<rparr>) conn)"

definition create_table_route :: "connection \<Rightarrow> connection" where
  "create_table_route conn =
     (case route (pending conn) of
        Some t \<Rightarrow> conn
      | None \<Rightarrow> execute_ddl (\<lambda>d. d\<lparr>route := Some empty_table\<rparr>) conn)"

text \<open>
  \<^verbatim>\<open>SELECT name_id FROM start WHERE start_point = ?\<close>: the identifiers of the matching
  rows, in storage order; \<^verbatim>\<open>fetchone\<close> takes the first, or \<^verbatim>\<open>None\<close>.
\<close>

definition select_name_id :: "connection \<Rightarrow> str \<Rightarrow> error + int list" where
  "select_name_id conn first =
     (case start (pending conn) of
        None \<Rightarrow> Inl (NoSuchTable ''start'')
      | Some t \<Rightarrow>
          if encodable first
          then Inr (map name_id (filter (\<lambda>s. start_point s = first) (rows t)))
          else Inl UnicodeEncodeError)"

definition fetchone :: "'a list \<Rightarrow> 'a option" where
  "fetchone cursor = (case cursor of [] \<Rightarrow> None | row # _ \<Rightarrow> Some row)"

text \<open>
  \<^verbatim>\<open>INSERT INTO start (start_point) VALUES (?)\<close>; the result carries
  \<^verbatim>\<open>cursor.lastrowid\<close>.
\<close>

definition insert_start :: "connection \<Rightarrow> str \<Rightarrow> error + (int \<times> connection)" where
  "insert_start conn first =
     (case start (pending conn) of
        None \<Rightarrow> Inl (NoSuchTable ''start'')
      | Some t \<Rightarrow>
          if encodable first then
            (case new_rowid (map name_id (rows t)) (sequence t) of
               Inl e \<Rightarrow> Inl e
             | Inr i \<Rightarrow>
                 Inr (i, execute_dml
                   (\<lambda>d. d\<lparr>start := Some \<lparr>rows = rows t @ [\<lparr>name_id = i, start_point = first\<rparr>],
                                           sequence = i\<rparr>\<rparr>) conn))
          else Inl UnicodeEncodeError)"

text \<open>
  \<^verbatim>\<open>INSERT INTO route (name_id, first_station, second_station) VALUES (?, ?, ?)\<close>
\<close>

definition insert_route :: "connection \<Rightarrow> int \<Rightarrow> str \<Rightarrow> str \<Rightarrow> error + connection" where
  "insert_route conn nid first second =
     (case route (pending conn) of
        None \<Rightarrow> Inl (NoSuchTable ''route'')
      | Some t \<Rightarrow>
          if encodable first \<and> encodable second then
            (case new_rowid (map route_id (rows t)) (sequence t) of
               Inl e \<Rightarrow> Inl e
             | Inr i \<Rightarrow>
                 Inr (execute_dml
                   (\<lambda>d. d\<lparr>route := Some \<lparr>rows = rows t @ [\<lparr>route_id = i, route_name_id = nid,
                                              first_station = first, second_station = second\<rparr>],
                                           sequence = i\<rparr>\<rparr>) conn))
          else Inl UnicodeEncodeError)"

text \<open>
  \<^verbatim>\<open>
  SELECT start.start_point, route.first_station, route.second_station
  FROM route INNER JOIN start ON start.name_id = route.name_id
  [WHERE route.second_station = ?]
  \<close>
  One result row for every pair of a route row and a start row with the same
  \<^verbatim>\<open>name_id\<close>. The optional argument is the parameter of the \<^verbatim>\<open>WHERE\<close> clause.
\<close>

definition select_join :: "connection \<Rightarrow> str option \<Rightarrow> error + (str \<times> str \<times> str) list" where
  "select_join conn find_end =
     (case route (pending conn) of
        None \<Rightarrow> Inl (NoSuchTable ''route'')
      | Some rt \<Rightarrow>
          (case start (pending conn) of
             None \<Rightarrow> Inl (NoSuchTable ''start'')
           | Some st \<Rightarrow>
               if (case find_end of None \<Rightarrow> True | Some x \<Rightarrow> encodable x) then
                 Inr (concat (map
                   (\<lambda>r. map (\<lambda>s. (start_point s, first_station r, second_station r))
                          (filter (\<lambda>s. name_id s = route_name_id r) (rows st)))
                   (filter (\<lambda>r. case find_end of None \<Rightarrow> True | Some x \<Rightarrow> second_station r = x)
                      (rows rt))))
               else Inl UnicodeEncodeError))"

subsection \<open>The data-access functions\<close>

text \<open>
  Each function takes the contents of the file at \<^verbatim>\<open>database_path\<close> and returns what
  the Python function returns (or the exception it raises) together with the contents of
  the file afterwards. When a statement raises, the function is left at once: nothing
  has been committed, and the file is what the connection last wrote to it.
\<close>

type_synonym dict = "string \<rightharpoonup> str"

definition row_dict :: "str \<times> str \<times> str \<Rightarrow> dict" where
  "row_dict row = (case row of (r0, r1, r2) \<Rightarrow>
     [''start_point'' \<mapsto> r0, ''first_station'' \<mapsto> r1, ''second_station'' \<mapsto> r2])"

definition create_db :: "database \<Rightarrow> database" where
  "create_db database_path =
     (let conn = connect database_path;
          conn = create_table_start conn;
          conn = create_table_route conn
      in close conn)"

definition add_route :: "database \<Rightarrow> str \<Rightarrow> str \<Rightarrow> (error + unit) \<times> database" where
  "add_route database_path first second =
     (let conn = connect database_path in
      case select_name_id conn first of
        Inl e \<Rightarrow> (Inl e, committed conn)
      | Inr cursor \<Rightarrow>
          (case (case fetchone cursor of
                   None \<Rightarrow> insert_start conn first
                 | Some row \<Rightarrow> Inr (row, conn)) of
             Inl e \<Rightarrow> (Inl e, committed conn)
           | Inr (nid, conn1) \<Rightarrow>
               (case insert_route conn1 nid first second of
                  Inl e \<Rightarrow> (Inl e, committed conn1)
                | Inr conn2 \<Rightarrow> (Inr (), close (commit conn2)))))"

definition select_all :: "database \<Rightarrow> (error + dict list) \<times> database" where
  "select_all database_path =
     (let conn = connect database_path in
      case select_join conn None of
        Inl e \<Rightarrow> (Inl e, committed conn)
      | Inr fetched \<Rightarrow> (Inr (map row_dict fetched), close conn))"

definition select_route :: "database \<Rightarrow> str \<Rightarrow> (error + dict list) \<times> database" where
  "select_route database_path find_end =
     (let conn = connect database_path in
      case select_join conn (Some find_end) of
        Inl e \<Rightarrow> (Inl e, committed conn)
      | Inr fetched \<Rightarrow> (Inr (map row_dict fetched), close conn))"

subsection \<open>The formatter\<close>

text \<open>
  \<^verbatim>\<open>display_routes\<close> prints lines; the model returns the list of the lines printed.
  The three literals of the source that are not ASCII are given by their code points:
  \<^verbatim>\<open>"\<close>U+2116\<^verbatim>\<open>"\<close> (the numero sign), and the Russian for "place of departure",
  "place of arrival" and "the list of routes is empty.".
\<close>

definition numero_sign :: str where
  "numero_sign = [8470]"

definition mesto_otpravki :: str where
  "mesto_otpravki =
     [1052, 1077, 1089, 1090, 1086, 32, 1086, 1090, 1087, 1088, 1072, 1074, 1082, 1080]"

definition mesto_pribytiya :: str where
  "mesto_pribytiya =
     [1052, 1077, 1089, 1090, 1086, 32, 1087, 1088, 1080, 1073, 1099, 1090, 1080, 1103]"

definition spisok_marshrutov_pust :: str where
  "spisok_marshrutov_pust =
     [1057, 1087, 1080, 1089, 1086, 1082, 32, 1084, 1072, 1088, 1096, 1088, 1091, 1090,
      1086, 1074, 32, 1087, 1091, 1089, 1090, 46]"

text \<open>
  The format field \<^verbatim>\<open>{:^w}\<close>: the text centred in \<open>w\<close> columns, the odd space going
  to the right; a longer text is not cut.
\<close>

definition centre :: "nat \<Rightarrow> str \<Rightarrow> str" where
  "centre w s =
     (let total = w - length s; left = total div 2
      in replicate left 32 @ s @ replicate (total - left) 32)"

text \<open>\<^verbatim>\<open>"| {:^4} | {:^30} | {:^20} |".format(a, b, c)\<close>\<close>

definition format_row :: "str \<Rightarrow> str \<Rightarrow> str \<Rightarrow> str" where
  "format_row a b c =
     ascii ''| '' @ centre 4 a @ ascii '' | '' @ centre 30 b @ ascii '' | '' @ centre 20 c
       @ ascii '' |''"

text \<open>\<^verbatim>\<open>"+-{}-+-{}-+-{}-+".format("-" * 4, "-" * 30, "-" * 20)\<close>\<close>

definition line :: str where
  "line =
     ascii ''+-'' @ replicate 4 45 @ ascii ''-+-'' @ replicate 30 45 @ ascii ''-+-''
       @ replicate 20 45 @ ascii ''-+''"

text \<open>The decimal digits of a row number, as the format field renders an \<^verbatim>\<open>int\<close>.\<close>

fun decimal :: "nat \<Rightarrow> str" where
  "decimal n = (if n < 10 then [48 + n] else decimal (n div 10) @ [48 + n mod 10])"

declare decimal.simps [simp del]

text \<open>\<^verbatim>\<open>station.get(key, "")\<close>\<close>

definition dict_get :: "dict \<Rightarrow> string \<Rightarrow> str \<Rightarrow> str" where
  "dict_get d key fallback = (case d key of None \<Rightarrow> fallback | Some v \<Rightarrow> v)"

text \<open>The loop \<^verbatim>\<open>for id, station in enumerate(routes, 1)\<close>, entered with \<open>id' = 1\<close>.\<close>

fun print_stations :: "nat \<Rightarrow> dict list \<Rightarrow> str list" where
  "print_stations id' [] = []"
| "print_stations id' (station # routes) =
     format_row (decimal id') (dict_get station ''start_point'' [])
       (dict_get station ''second_station'' [])
     # line
     # print_stations (Suc id') routes"

definition display_routes :: "dict list \<Rightarrow> str list" where
  "display_routes routes =
     (if routes \<noteq> [] then
        [line, format_row numero_sign mesto_otpravki mesto_pribytiya, line]
          @ print_stations 1 routes
      else [spisok_marshrutov_pust])"

subsection \<open>Sequences of calls\<close>

text \<open>
  The stores the program can reach: a new file initialised by \<^verbatim>\<open>create_db\<close>, then
  any sequence of calls of the four data-access functions, each on the file the previous
  one left.
\<close>

datatype call =
  CreateDb
  | AddRoute str str
  | SelectAll
  | SelectRoute str

fun perform :: "call \<Rightarrow> database \<Rightarrow> database" where
  "perform CreateDb d = create_db d"
| "perform (AddRoute first second) d = snd (add_route d first second)"
| "perform SelectAll d = snd (select_all d)"
| "perform (SelectRoute find_end) d = snd (select_route d find_end)"

fun run :: "call list \<Rightarrow> database \<Rightarrow> database" where
  "run [] d = d"
| "run (c # cs) d = run cs (perform c d)"

definition initial_store :: database where
  "initial_store = create_db new_file"

text \<open>
  The invariant that the proofs below carry along a run: identifiers and origin texts of
  the start rows are not repeated, and every route row has a start row with its
  \<^verbatim>\<open>name_id\<close> whose text is the route's first station.
\<close>

definition consistent :: "database \<Rightarrow> bool" where
  "consistent d \<longleftrightarrow>
     distinct (map name_id (start_rows d)) \<and>
     distinct (map start_point (start_rows d)) \<and>
     (\<forall>r\<in>set (route_rows d). \<exists>x\<in>set (start_rows d).
        name_id x = route_name_id r \<and> start_point x = first_station r)"

text \<open>
  \<^verbatim>\<open>FOREIGN KEY(name_id) REFERENCES start(name_id)\<close>, as a property of a store: every
  route row carries the \<^verbatim>\<open>name_id\<close> of some start row.
\<close>

definition foreign_key_holds :: "database \<Rightarrow> bool" where
  "foreign_key_holds d \<longleftrightarrow>
     (\<forall>r\<in>set (route_rows d). \<exists>x\<in>set (start_rows d). name_id x = route_name_id r)"

section \<open>Properties\<close>

subsection \<open>What each function does\<close>

lemmas create_db_defs = create_db_def connect_def create_table_start_def create_table_route_def
  execute_ddl_def close_def Let_def

lemma create_db_start:
  "start (create_db d) = Some (case start d of None \<Rightarrow> empty_table | Some t \<Rightarrow> t)"
  by (simp add: create_db_defs split: option.splits)

lemma create_db_route:
  "route (create_db d) = Some (case route d of None \<Rightarrow> empty_table | Some t \<Rightarrow> t)"
  by (simp add: create_db_defs split: option.splits)

lemma create_db_start_rows: "start_rows (create_db d) = start_rows d"
  by (simp add: start_rows_def create_db_start empty_table_def split: option.splits)

lemma create_db_route_rows: "route_rows (create_db d) = route_rows d"
  by (simp add: route_rows_def create_db_route empty_table_def split: option.splits)

lemma select_all_snd: "snd (select_all d) = d"
  by (simp add: select_all_def connect_def close_def Let_def split: sum.splits)

lemma select_route_snd: "snd (select_route d x) = d"
  by (simp add: select_route_def connect_def close_def Let_def split: sum.splits)

lemma select_all_returns:
  assumes "start d = Some st" and "route d = Some rt"
  shows "fst (select_all d) = Inr (map row_dict (concat (map
           (\<lambda>r. map (\<lambda>s. (start_point s, first_station r, second_station r))
                  (filter (\<lambda>s. name_id s = route_name_id r) (rows st))) (rows rt))))"
  using assms by (simp add: select_all_def select_join_def connect_def close_def)

lemma select_all_member:
  assumes "fst (select_all d) = Inr rs"
  shows "q \<in> set rs \<longleftrightarrow>
     (\<exists>r\<in>set (route_rows d). \<exists>x\<in>set (start_rows d). name_id x = route_name_id r \<and>
        q = row_dict (start_point x, first_station r, second_station r))"
proof -
  from assms obtain st rt where tables: "start d = Some st" "route d = Some rt"
    by (auto simp add: select_all_def select_join_def connect_def Let_def split: option.splits)
  from assms select_all_returns [OF tables] have "rs = map row_dict (concat (map
           (\<lambda>r. map (\<lambda>s. (start_point s, first_station r, second_station r))
                  (filter (\<lambda>s. name_id s = route_name_id r) (rows st))) (rows rt)))"
    by simp
  then show ?thesis
    by (auto simp add: route_rows_def start_rows_def tables)
qed



subsection \<open>Row identifiers\<close>

lemma largest_None: "largest ids = None \<longleftrightarrow> ids = []"
  by (cases ids) (auto split: option.splits)

lemma largest_member: "largest ids = Some m \<Longrightarrow> m \<in> set ids"
  by (induction ids arbitrary: m) (auto split: option.splits simp add: max_def)

lemma largest_upper: "largest ids = Some m \<Longrightarrow> i \<in> set ids \<Longrightarrow> i \<le> m"
proof (induction ids arbitrary: m)
  case Nil
  then show ?case by simp
next
  case (Cons j js)
  show ?case
  proof (cases "largest js")
    case None
    then have "js = []" by (simp add: largest_None)
    with Cons.prems None show ?thesis by simp
  next
    case (Some k)
    with Cons.prems have "m = max j k" by simp
    with Cons.prems Cons.IH [OF Some] show ?thesis by auto
  qed
qed

lemma new_rowid_fresh: "new_rowid ids c = Inr n \<Longrightarrow> n \<notin> set ids"
  by (auto simp add: new_rowid_def largest_None split: option.splits if_splits dest: largest_upper)

lemma new_rowid_returns:
  assumes "c \<noteq> MAX_ROWID" and "\<forall>i\<in>set ids. i < MAX_ROWID"
  shows "\<exists>n. new_rowid ids c = Inr n"
proof (cases "largest ids")
  case None
  with assms show ?thesis by (simp add: new_rowid_def)
next
  case (Some m)
  with assms largest_member [OF Some] have "\<not> MAX_ROWID \<le> m" by auto
  with assms Some show ?thesis by (simp add: new_rowid_def)
qed

subsection \<open>The two ways \<^verbatim>\<open>add_route\<close> returns, and how it raises\<close>

lemmas add_route_defs = add_route_def connect_def select_name_id_def fetchone_def insert_start_def
  insert_route_def execute_dml_def commit_def close_def Let_def

lemma add_route_raises:
  assumes "fst (add_route d f s) = Inl e"
  shows "snd (add_route d f s) = d"
  using assms
  by (auto simp add: add_route_defs
      split: option.splits sum.splits list.splits prod.splits if_splits)

lemma add_route_returns:
  assumes "fst (add_route d f s) = Inr ()"
  obtains (existing) st rt x xs i where
      "start d = Some st" and "route d = Some rt"
      and "filter (\<lambda>x. start_point x = f) (rows st) = x # xs"
      and "new_rowid (map route_id (rows rt)) (sequence rt) = Inr i"
      and "snd (add_route d f s) =
        \<lparr>start = Some st,
         route = Some \<lparr>rows = rows rt @ [\<lparr>route_id = i, route_name_id = name_id x,
                                          first_station = f, second_station = s\<rparr>],
                       sequence = i\<rparr>\<rparr>"
  | (new) st rt n i where
      "start d = Some st" and "route d = Some rt"
      and "filter (\<lambda>x. start_point x = f) (rows st) = []"
      and "new_rowid (map name_id (rows st)) (sequence st) = Inr n"
      and "new_rowid (map route_id (rows rt)) (sequence rt) = Inr i"
      and "snd (add_route d f s) =
        \<lparr>start = Some \<lparr>rows = rows st @ [\<lparr>name_id = n, start_point = f\<rparr>], sequence = n\<rparr>,
         route = Some \<lparr>rows = rows rt @ [\<lparr>route_id = i, route_name_id = n,
                                          first_station = f, second_station = s\<rparr>],
                       sequence = i\<rparr>\<rparr>"
  using assms
  by (cases d)
    (auto simp add: add_route_defs
      split: option.splits sum.splits list.splits prod.splits if_splits)

text \<open>
  \<^verbatim>\<open>add_route\<close> returns, for strings that can be encoded, on every store that has both
  tables and has not used up the identifiers of either: in particular on every store
  \<^verbatim>\<open>create_db\<close> has initialised, short of $2^{63} - 1$ rows.
\<close>

lemma add_route_succeeds:
  assumes "start d = Some st" and "route d = Some rt"
    and "sequence st \<noteq> MAX_ROWID" and "\<forall>i\<in>set (map name_id (rows st)). i < MAX_ROWID"
    and "sequence rt \<noteq> MAX_ROWID" and "\<forall>i\<in>set (map route_id (rows rt)). i < MAX_ROWID"
    and "encodable f" and "encodable s"
  shows "fst (add_route d f s) = Inr ()"
proof -
  from assms(3,4) obtain n where n: "new_rowid (map name_id (rows st)) (sequence st) = Inr n"
    using new_rowid_returns by blast
  from assms(5,6) obtain i where i: "new_rowid (map route_id (rows rt)) (sequence rt) = Inr i"
    using new_rowid_returns by blast
  from assms(1,2,7,8) n i show ?thesis
    by (cases "filter (\<lambda>x. start_point x = f) (rows st)") (simp_all add: add_route_defs)
qed

lemma row_dict_fields:
  "row_dict (a, b, c) ''start_point'' = Some a"
  "row_dict (a, b, c) ''first_station'' = Some b"
  "row_dict (a, b, c) ''second_station'' = Some c"
  by (simp_all add: row_dict_def)

subsection \<open>Evaluating on concrete stores\<close>

lemma encodable_ascii: "encodable (ascii s)"
proof -
  have "of_char c < (55296 :: nat)" for c
    using nat_of_char_less_256 [of c] by linarith
  then show ?thesis
    by (simp add: encodable_def ascii_def list_all_iff)
qed

lemma ascii_eq_iff: "ascii s = ascii t \<longleftrightarrow> s = t"
  by (simp add: ascii_def inj_map_eq_map inj_of_char)

lemma initial_store_eq:
  "initial_store = \<lparr>start = Some \<lparr>rows = [], sequence = 0\<rparr>,
                     route = Some \<lparr>rows = [], sequence = 0\<rparr>\<rparr>"
  by (simp add: initial_store_def create_db_defs new_file_def empty_table_def)

lemmas evaluate = add_route_defs select_all_def select_route_def select_join_def new_rowid_def
  MAX_ROWID_def encodable_ascii ascii_eq_iff initial_store_eq

lemma one_route:
  "add_route initial_store (ascii f) (ascii s) =
     (Inr (),
      \<lparr>start = Some \<lparr>rows = [\<lparr>name_id = 1, start_point = ascii f\<rparr>], sequence = 1\<rparr>,
       route = Some \<lparr>rows = [\<lparr>route_id = 1, route_name_id = 1, first_station = ascii f,
                               second_station = ascii s\<rparr>],
                     sequence = 1\<rparr>\<rparr>)"
  by (simp add: evaluate)

subsection \<open>Adding a route and listing the routes\<close>

text \<open>
  C1. On every store and for every pair of strings, once \<^verbatim>\<open>add_route(path, first, second)\<close>
  has returned, \<^verbatim>\<open>select_all(path)\<close> returns a list that contains a record whose
  \<^verbatim>\<open>start_point\<close> is \<open>first\<close> and whose \<^verbatim>\<open>second_station\<close> is \<open>second\<close>.
  (When the call raises there is no state after the call to speak of: the file is as it
  was, by \<open>add_route_raises\<close>; and the call returns, for strings that can be encoded,
  on every initialised store, by \<open>add_route_succeeds\<close>.)
\<close>

theorem add_route_then_select_all:
  assumes "fst (add_route d first second) = Inr ()"
  shows "\<exists>rs. fst (select_all (snd (add_route d first second))) = Inr rs \<and>
     (\<exists>r\<in>set rs. r ''start_point'' = Some first \<and> r ''second_station'' = Some second)"
  using assms
proof (cases rule: add_route_returns)
  case (existing st rt x xs i)
  let ?d' = "snd (add_route d first second)"
  from existing(3) have x: "x \<in> set (rows st)" "start_point x = first"
    by (auto dest: filter_eq_ConsD)
  from existing(5) have tables: "start ?d' \<noteq> None" "route ?d' \<noteq> None" by simp_all
  then obtain rs where rs: "fst (select_all ?d') = Inr rs"
    using select_all_returns by blast
  have "row_dict (start_point x, first, second) \<in> set rs"
    unfolding select_all_member [OF rs] using x existing(5)
    by (auto simp add: route_rows_def start_rows_def)
  moreover have "row_dict (start_point x, first, second) ''start_point'' = Some first
      \<and> row_dict (start_point x, first, second) ''second_station'' = Some second"
    using x by (simp add: row_dict_fields)
  ultimately show ?thesis using rs by blast
next
  case (new st rt n i)
  let ?d' = "snd (add_route d first second)"
  from new(6) have tables: "start ?d' \<noteq> None" "route ?d' \<noteq> None" by simp_all
  then obtain rs where rs: "fst (select_all ?d') = Inr rs"
    using select_all_returns by blast
  have "row_dict (first, first, second) \<in> set rs"
    unfolding select_all_member [OF rs] using new(6)
    by (auto simp add: route_rows_def start_rows_def)
  moreover have "row_dict (first, first, second) ''start_point'' = Some first
      \<and> row_dict (first, first, second) ''second_station'' = Some second"
    by (simp add: row_dict_fields)
  ultimately show ?thesis using rs by blast
qed

theorem add_route_then_select_all_witness:
  "fst (add_route initial_store (ascii ''Moscow'') (ascii ''Kazan'')) = Inr ()
   \<and> (\<exists>rs. fst (select_all (snd (add_route initial_store (ascii ''Moscow'') (ascii ''Kazan''))))
              = Inr rs \<and>
        (\<exists>r\<in>set rs. r ''start_point'' = Some (ascii ''Moscow'')
                   \<and> r ''second_station'' = Some (ascii ''Kazan'')))"
proof -
  have h: "fst (add_route initial_store (ascii ''Moscow'') (ascii ''Kazan'')) = Inr ()"
    by (simp add: one_route)
  from add_route_then_select_all [OF h] h show ?thesis by blast
qed

subsection \<open>Filtering by destination\<close>




subsection \<open>Initialising the schema\<close>

text \<open>
  C4. \<^verbatim>\<open>create_db\<close> is idempotent: on every store, a second call leaves the file as the
  first call left it; after the call both tables exist, a table that existed is the table
  it was (a name holds one table, so none is duplicated), and every row is still there.
\<close>

theorem create_db_idempotent:
  "create_db (create_db d) = create_db d
   \<and> start (create_db d) = Some (case start d of None \<Rightarrow> empty_table | Some t \<Rightarrow> t)
   \<and> route (create_db d) = Some (case route d of None \<Rightarrow> empty_table | Some t \<Rightarrow> t)
   \<and> start_rows (create_db d) = start_rows d
   \<and> route_rows (create_db d) = route_rows d"
proof -
  have "create_db (create_db d) = create_db d"
    by (rule database.equality) (simp_all add: create_db_start create_db_route)
  then show ?thesis
    by (simp add: create_db_start create_db_route create_db_start_rows create_db_route_rows)
qed

subsection \<open>The empty list of routes\<close>

text \<open>
  C8. For the empty list \<^verbatim>\<open>display_routes\<close> prints one line and nothing else: the
  Russian sentence "Spisok marshrutov pust." (the list of routes is empty), given here by
  its 22 code points, Cyrillic but for the two spaces and the full stop. The line is
  neither a border line nor the header row; no table is printed.
\<close>

theorem display_routes_empty:
  "display_routes [] =
     [[1057, 1087, 1080, 1089, 1086, 1082, 32, 1084, 1072, 1088, 1096, 1088, 1091, 1090,
       1086, 1074, 32, 1087, 1091, 1089, 1090, 46]]
   \<and> line \<notin> set (display_routes [])
   \<and> format_row numero_sign mesto_otpravki mesto_pribytiya \<notin> set (display_routes [])"
  by (simp add: display_routes_def spisok_marshrutov_pust_def line_def format_row_def ascii_def
      centre_def numero_sign_def)

subsection \<open>The selects do not write\<close>

text \<open>
  C10. \<^verbatim>\<open>select_all\<close> and \<^verbatim>\<open>select_route\<close> are read-only: on every store and for
  every destination string the file after the call is the file before it, whether the
  call returns or raises.
\<close>

theorem select_read_only:
  "snd (select_all d) = d \<and> snd (select_route d find_end) = d"
  by (simp add: select_all_snd select_route_snd)

subsection \<open>What a call of \<^verbatim>\<open>add_route\<close> writes\<close>

text \<open>
  C7. A call of \<^verbatim>\<open>add_route(path, first, second)\<close> that returns has appended one route
  row \<open>(first, second)\<close> and, when no start row had the text \<open>first\<close>, one start row
  with that text, which the route row references; otherwise the start table is as it was
  and the route row references a start row with that text. The rows that were there are
  still there, in place and unchanged. A call that raises has written nothing.
\<close>

theorem add_route_frame:
  "(fst (add_route d first second) = Inr () \<longrightarrow>
      (\<exists>r. route_rows (snd (add_route d first second)) = route_rows d @ [r]
         \<and> first_station r = first \<and> second_station r = second
         \<and> (if \<exists>x\<in>set (start_rows d). start_point x = first
            then start_rows (snd (add_route d first second)) = start_rows d
              \<and> (\<exists>x\<in>set (start_rows d). start_point x = first \<and> name_id x = route_name_id r)
            else \<exists>n. start_rows (snd (add_route d first second)) = start_rows d @ [n]
              \<and> start_point n = first \<and> name_id n = route_name_id r)))
   \<and> (\<forall>e. fst (add_route d first second) = Inl e \<longrightarrow> snd (add_route d first second) = d)"
proof (intro conjI impI allI)
  fix e assume "fst (add_route d first second) = Inl e"
  then show "snd (add_route d first second) = d" by (rule add_route_raises)
next
  assume "fst (add_route d first second) = Inr ()"
  then show "\<exists>r. route_rows (snd (add_route d first second)) = route_rows d @ [r]
         \<and> first_station r = first \<and> second_station r = second
         \<and> (if \<exists>x\<in>set (start_rows d). start_point x = first
            then start_rows (snd (add_route d first second)) = start_rows d
              \<and> (\<exists>x\<in>set (start_rows d). start_point x = first \<and> name_id x = route_name_id r)
            else \<exists>n. start_rows (snd (add_route d first second)) = start_rows d @ [n]
              \<and> start_point n = first \<and> name_id n = route_name_id r)"
  proof (cases rule: add_route_returns)
    case (existing st rt x xs i)
    from existing(3) have x: "x \<in> set (rows st)" "start_point x = first"
      by (auto dest: filter_eq_ConsD)
    with existing(1,2,5) show ?thesis
      by (auto simp add: route_rows_def start_rows_def)
  next
    case (new st rt n i)
    from new(3) have "\<not> (\<exists>x\<in>set (rows st). start_point x = first)"
      by (auto simp add: filter_empty_conv)
    with new(1,2,6) show ?thesis
      by (auto simp add: route_rows_def start_rows_def)
  qed
qed

theorem add_route_frame_witness:
  "fst (add_route initial_store (ascii ''Moscow'') (ascii ''Kazan'')) = Inr ()
   \<and> \<not> (\<exists>x\<in>set (start_rows initial_store). start_point x = ascii ''Moscow'')
   \<and> (\<exists>r n. route_rows (snd (add_route initial_store (ascii ''Moscow'') (ascii ''Kazan''))) =
            route_rows initial_store @ [r]
        \<and> first_station r = ascii ''Moscow'' \<and> second_station r = ascii ''Kazan''
        \<and> start_rows (snd (add_route initial_store (ascii ''Moscow'') (ascii ''Kazan''))) =
            start_rows initial_store @ [n]
        \<and> start_point n = ascii ''Moscow'' \<and> name_id n = route_name_id r)"
proof -
  have h: "fst (add_route initial_store (ascii ''Moscow'') (ascii ''Kazan'')) = Inr ()"
    by (simp add: one_route)
  have e: "start_rows initial_store = []"
    by (simp add: start_rows_def initial_store_eq)
  from add_route_frame [of initial_store "ascii ''Moscow''" "ascii ''Kazan''"] h e
  show ?thesis by auto
qed

subsection \<open>Invariants of the reachable stores\<close>

lemma initial_store_rows: "start_rows initial_store = []" "route_rows initial_store = []"
  by (simp_all add: initial_store_def create_db_start create_db_route start_rows_def
      route_rows_def new_file_def empty_table_def)

lemma consistent_initial_store: "consistent initial_store"
  by (simp add: consistent_def initial_store_rows)

lemma consistent_add_route:
  assumes "consistent d"
  shows "consistent (snd (add_route d f s))"
proof (cases "fst (add_route d f s)")
  case (Inl e)
  with assms show ?thesis by (simp add: add_route_raises)
next
  case (Inr u)
  then have "fst (add_route d f s) = Inr ()" by simp
  then show ?thesis
  proof (cases rule: add_route_returns)
    case (existing st rt x xs i)
    from existing(3) have x: "x \<in> set (rows st)" "start_point x = f"
      by (auto dest: filter_eq_ConsD)
    with assms existing(1,2,5) show ?thesis
      by (auto simp add: consistent_def route_rows_def start_rows_def)
  next
    case (new st rt n i)
    from new(3) have absent: "f \<notin> start_point ` set (rows st)"
      by (auto simp add: filter_empty_conv)
    from new(4) have fresh: "n \<notin> name_id ` set (rows st)"
      by (auto dest: new_rowid_fresh)
    from assms new(1,2) have old:
      "distinct (map name_id (rows st))" "distinct (map start_point (rows st))"
      "\<forall>r\<in>set (rows rt). \<exists>x\<in>set (rows st).
          name_id x = route_name_id r \<and> start_point x = first_station r"
      by (simp_all add: consistent_def route_rows_def start_rows_def)
    from old absent fresh new(6) show ?thesis
      by (auto simp add: consistent_def route_rows_def start_rows_def)
  qed
qed

lemma consistent_perform: "consistent d \<Longrightarrow> consistent (perform c d)"
  by (cases c)
    (simp_all add: consistent_add_route select_all_snd select_route_snd,
      simp add: consistent_def create_db_start_rows create_db_route_rows)

lemma consistent_run: "consistent d \<Longrightarrow> consistent (run cs d)"
  by (induction cs arbitrary: d) (simp_all add: consistent_perform)

lemma consistent_reachable: "consistent (run cs initial_store)"
  by (rule consistent_run) (rule consistent_initial_store)

lemma foreign_key_add_route:
  assumes "foreign_key_holds d"
  shows "foreign_key_holds (snd (add_route d f s))"
proof (cases "fst (add_route d f s)")
  case (Inl e)
  with assms show ?thesis by (simp add: add_route_raises)
next
  case (Inr u)
  then have "fst (add_route d f s) = Inr ()" by simp
  then show ?thesis
  proof (cases rule: add_route_returns)
    case (existing st rt x xs i)
    from existing(3) have x: "x \<in> set (rows st)"
      by (auto dest: filter_eq_ConsD)
    with assms existing(1,2,5) show ?thesis
      by (auto simp add: foreign_key_holds_def route_rows_def start_rows_def)
  next
    case (new st rt n i)
    with assms show ?thesis
      by (auto simp add: foreign_key_holds_def route_rows_def start_rows_def)
  qed
qed

text \<open>
  C6. Referential integrity is an invariant: every store reached from the initialised
  empty store by calls of \<^verbatim>\<open>add_route\<close>, \<^verbatim>\<open>select_all\<close>, \<^verbatim>\<open>select_route\<close> and
  \<^verbatim>\<open>create_db\<close> has, for each route row, a start row with the route's \<^verbatim>\<open>name_id\<close>;
  and each of the four calls, on any store that has the property, leaves a store that has it.
\<close>

theorem referential_integrity:
  "foreign_key_holds (run cs initial_store)
   \<and> (foreign_key_holds d \<longrightarrow> foreign_key_holds (perform c d))"
proof
  from consistent_reachable [of cs] show "foreign_key_holds (run cs initial_store)"
    by (auto simp add: consistent_def foreign_key_holds_def)
next
  show "foreign_key_holds d \<longrightarrow> foreign_key_holds (perform c d)"
    by (cases c)
      (simp_all add: foreign_key_add_route select_all_snd select_route_snd,
        simp add: foreign_key_holds_def create_db_start_rows create_db_route_rows)
qed

theorem referential_integrity_witness:
  "foreign_key_holds
     (run [AddRoute (ascii ''Moscow'') (ascii ''Kazan''), SelectAll,
           AddRoute (ascii ''Moscow'') (ascii ''Omsk''), CreateDb,
           SelectRoute (ascii ''Kazan'')] initial_store)
   \<and> foreign_key_holds (snd (add_route initial_store (ascii ''A'') (ascii ''B'')))
   \<and> foreign_key_holds
       (perform (AddRoute (ascii ''C'') (ascii ''D''))
          (snd (add_route initial_store (ascii ''A'') (ascii ''B''))))"
proof -
  have h: "foreign_key_holds (snd (add_route initial_store (ascii ''A'') (ascii ''B'')))"
    by (simp add: one_route foreign_key_holds_def route_rows_def start_rows_def)
  from h referential_integrity
    [of "[AddRoute (ascii ''Moscow'') (ascii ''Kazan''), SelectAll,
          AddRoute (ascii ''Moscow'') (ascii ''Omsk''), CreateDb,
          SelectRoute (ascii ''Kazan'')]"
        "snd (add_route initial_store (ascii ''A'') (ascii ''B''))"
        "AddRoute (ascii ''C'') (ascii ''D'')"]
  show ?thesis by blast
qed

lemma select_route_member:
  assumes "fst (select_route d find_end) = Inr rs" and "q \<in> set rs"
  shows "\<exists>r\<in>set (route_rows d). \<exists>x\<in>set (start_rows d). name_id x = route_name_id r \<and>
        q = row_dict (start_point x, first_station r, second_station r)"
  using assms
  by (auto simp add: select_route_def select_join_def connect_def close_def Let_def
      route_rows_def start_rows_def split: option.splits if_splits, blast)

lemma consistent_referenced:
  assumes "consistent d" and "r \<in> set (route_rows d)" and "x \<in> set (start_rows d)"
    and "name_id x = route_name_id r"
  shows "start_point x = first_station r"
proof -
  from assms(1,2) obtain y where y: "y \<in> set (start_rows d)" "name_id y = route_name_id r"
      "start_point y = first_station r"
    by (auto simp add: consistent_def)
  from assms(1) have "inj_on name_id (set (start_rows d))"
    by (simp add: consistent_def distinct_map)
  from inj_onD [OF this, of x y] y assms(3,4) have "x = y" by simp
  with y show ?thesis by simp
qed

text \<open>
  C9. In every store reached from the initialised empty store by calls of \<^verbatim>\<open>add_route\<close>
  alone, the first station of every route row is the text of the start row it references;
  so every record that \<^verbatim>\<open>select_all\<close> or \<^verbatim>\<open>select_route\<close> returns there has
  \<^verbatim>\<open>start_point\<close> equal to \<^verbatim>\<open>first_station\<close>, and the value \<^verbatim>\<open>display_routes\<close>
  reads from it for the origin column is the first-leg text.
\<close>

theorem first_station_is_origin:
  "let d = run (map (\<lambda>(first, second). AddRoute first second) routes) initial_store in
     (\<forall>r\<in>set (route_rows d). \<forall>x\<in>set (start_rows d).
        name_id x = route_name_id r \<longrightarrow> start_point x = first_station r)
   \<and> (\<forall>rs. fst (select_all d) = Inr rs \<longrightarrow>
        (\<forall>q\<in>set rs. q ''start_point'' = q ''first_station''
           \<and> dict_get q ''start_point'' [] = dict_get q ''first_station'' []))
   \<and> (\<forall>rs. fst (select_route d find_end) = Inr rs \<longrightarrow>
        (\<forall>q\<in>set rs. q ''start_point'' = q ''first_station''
           \<and> dict_get q ''start_point'' [] = dict_get q ''first_station'' []))"
proof -
  define d where "d = run (map (\<lambda>(first, second). AddRoute first second) routes) initial_store"
  have c: "consistent d"
    unfolding d_def by (rule consistent_reachable)
  have rows: "\<forall>r\<in>set (route_rows d). \<forall>x\<in>set (start_rows d).
        name_id x = route_name_id r \<longrightarrow> start_point x = first_station r"
    using c by (blast intro: consistent_referenced)
  have joined: "q ''start_point'' = q ''first_station''
      \<and> dict_get q ''start_point'' [] = dict_get q ''first_station'' []"
    if "\<exists>r\<in>set (route_rows d). \<exists>x\<in>set (start_rows d). name_id x = route_name_id r \<and>
        q = row_dict (start_point x, first_station r, second_station r)" for q
    using that rows by (auto simp add: row_dict_fields dict_get_def)
  have all: "\<forall>rs. fst (select_all d) = Inr rs \<longrightarrow>
        (\<forall>q\<in>set rs. q ''start_point'' = q ''first_station''
           \<and> dict_get q ''start_point'' [] = dict_get q ''first_station'' [])"
    using joined select_all_member by blast
  have some: "\<forall>rs. fst (select_route d find_end) = Inr rs \<longrightarrow>
        (\<forall>q\<in>set rs. q ''start_point'' = q ''first_station''
           \<and> dict_get q ''start_point'' [] = dict_get q ''first_station'' [])"
    using joined select_route_member by blast
  from rows all some show ?thesis
    unfolding Let_def d_def [symmetric] by blast
qed

lemma three_routes:
  "run (map (\<lambda>(first, second). AddRoute first second)
        [(ascii ''Moscow'', ascii ''Kazan''), (ascii ''Moscow'', ascii ''Omsk''),
         (ascii ''Tver'', ascii ''Kazan'')]) initial_store =
     \<lparr>start = Some \<lparr>rows = [\<lparr>name_id = 1, start_point = ascii ''Moscow''\<rparr>,
                            \<lparr>name_id = 2, start_point = ascii ''Tver''\<rparr>], sequence = 2\<rparr>,
      route = Some \<lparr>rows = [\<lparr>route_id = 1, route_name_id = 1,
                               first_station = ascii ''Moscow'', second_station = ascii ''Kazan''\<rparr>,
                            \<lparr>route_id = 2, route_name_id = 1,
                               first_station = ascii ''Moscow'', second_station = ascii ''Omsk''\<rparr>,
                            \<lparr>route_id = 3, route_name_id = 2,
                               first_station = ascii ''Tver'', second_station = ascii ''Kazan''\<rparr>],
                    sequence = 3\<rparr>\<rparr>"
  by (simp add: evaluate)

theorem first_station_is_origin_witness:
  "route_rows (run (map (\<lambda>(first, second). AddRoute first second)
        [(ascii ''Moscow'', ascii ''Kazan''), (ascii ''Moscow'', ascii ''Omsk''),
         (ascii ''Tver'', ascii ''Kazan'')]) initial_store) ! 2 \<in> set (route_rows (run (map (\<lambda>(first, second). AddRoute first second)
        [(ascii ''Moscow'', ascii ''Kazan''), (ascii ''Moscow'', ascii ''Omsk''),
         (ascii ''Tver'', ascii ''Kazan'')]) initial_store))
   \<and> start_rows (run (map (\<lambda>(first, second). AddRoute first second)
        [(ascii ''Moscow'', ascii ''Kazan''), (ascii ''Moscow'', ascii ''Omsk''),
         (ascii ''Tver'', ascii ''Kazan'')]) initial_store) ! 1 \<in> set (start_rows (run (map (\<lambda>(first, second). AddRoute first second)
        [(ascii ''Moscow'', ascii ''Kazan''), (ascii ''Moscow'', ascii ''Omsk''),
         (ascii ''Tver'', ascii ''Kazan'')]) initial_store))
   \<and> name_id (start_rows (run (map (\<lambda>(first, second). AddRoute first second)
        [(ascii ''Moscow'', ascii ''Kazan''), (ascii ''Moscow'', ascii ''Omsk''),
         (ascii ''Tver'', ascii ''Kazan'')]) initial_store) ! 1) = route_name_id (route_rows (run (map (\<lambda>(first, second). AddRoute first second)
        [(ascii ''Moscow'', ascii ''Kazan''), (ascii ''Moscow'', ascii ''Omsk''),
         (ascii ''Tver'', ascii ''Kazan'')]) initial_store) ! 2)
   \<and> start_point (start_rows (run (map (\<lambda>(first, second). AddRoute first second)
        [(ascii ''Moscow'', ascii ''Kazan''), (ascii ''Moscow'', ascii ''Omsk''),
         (ascii ''Tver'', ascii ''Kazan'')]) initial_store) ! 1) = first_station (route_rows (run (map (\<lambda>(first, second). AddRoute first second)
        [(ascii ''Moscow'', ascii ''Kazan''), (ascii ''Moscow'', ascii ''Omsk''),
         (ascii ''Tver'', ascii ''Kazan'')]) initial_store) ! 2)
   \<and> map_sum id length (fst (select_all (run (map (\<lambda>(first, second). AddRoute first second)
        [(ascii ''Moscow'', ascii ''Kazan''), (ascii ''Moscow'', ascii ''Omsk''),
         (ascii ''Tver'', ascii ''Kazan'')]) initial_store))) = Inr 3
   \<and> list_all (\<lambda>q. q ''start_point'' = q ''first_station'')
        (case fst (select_all (run (map (\<lambda>(first, second). AddRoute first second)
        [(ascii ''Moscow'', ascii ''Kazan''), (ascii ''Moscow'', ascii ''Omsk''),
         (ascii ''Tver'', ascii ''Kazan'')]) initial_store)) of Inl e \<Rightarrow> [] | Inr rs \<Rightarrow> rs)
   \<and> map_sum id length (fst (select_route (run (map (\<lambda>(first, second). AddRoute first second)
        [(ascii ''Moscow'', ascii ''Kazan''), (ascii ''Moscow'', ascii ''Omsk''),
         (ascii ''Tver'', ascii ''Kazan'')]) initial_store) (ascii ''Kazan''))) = Inr 2
   \<and> list_all (\<lambda>q. q ''start_point'' = q ''first_station'')
        (case fst (select_route (run (map (\<lambda>(first, second). AddRoute first second)
        [(ascii ''Moscow'', ascii ''Kazan''), (ascii ''Moscow'', ascii ''Omsk''),
         (ascii ''Tver'', ascii ''Kazan'')]) initial_store) (ascii ''Kazan'')) of Inl e \<Rightarrow> [] | Inr rs \<Rightarrow> rs)"
proof -
  let ?d = "(run (map (\<lambda>(first, second). AddRoute first second)
        [(ascii ''Moscow'', ascii ''Kazan''), (ascii ''Moscow'', ascii ''Omsk''),
         (ascii ''Tver'', ascii ''Kazan'')]) initial_store)"
  have r: "route_rows ?d ! 2 \<in> set (route_rows ?d)"
    unfolding three_routes by (simp add: route_rows_def)
  have x: "start_rows ?d ! 1 \<in> set (start_rows ?d)"
    unfolding three_routes by (simp add: start_rows_def)
  have k: "name_id (start_rows ?d ! 1) = route_name_id (route_rows ?d ! 2)"
    unfolding three_routes by (simp add: start_rows_def route_rows_def)
  have n: "map_sum id length (fst (select_all ?d)) = Inr 3"
    unfolding three_routes
    by (simp add: select_all_def select_join_def connect_def close_def)
  have m: "map_sum id length (fst (select_route ?d (ascii ''Kazan''))) = Inr 2"
    unfolding three_routes
    by (simp add: select_route_def select_join_def connect_def close_def encodable_ascii
        ascii_eq_iff)
  note t = first_station_is_origin
    [of "[(ascii ''Moscow'', ascii ''Kazan''), (ascii ''Moscow'', ascii ''Omsk''),
          (ascii ''Tver'', ascii ''Kazan'')]" "ascii ''Kazan''", unfolded Let_def]
  from t r x k have same: "start_point (start_rows ?d ! 1) = first_station (route_rows ?d ! 2)"
    by blast
  from n obtain rs where rs: "fst (select_all ?d) = Inr rs"
    by (cases "fst (select_all ?d)") simp_all
  with t have "\<forall>q\<in>set rs. q ''start_point'' = q ''first_station''" by blast
  with rs have all: "list_all (\<lambda>q. q ''start_point'' = q ''first_station'')
        (case fst (select_all ?d) of Inl e \<Rightarrow> [] | Inr rs \<Rightarrow> rs)"
    by (simp add: list_all_iff)
  from m obtain ks where ks: "fst (select_route ?d (ascii ''Kazan'')) = Inr ks"
    by (cases "fst (select_route ?d (ascii ''Kazan''))") simp_all
  with t have "\<forall>q\<in>set ks. q ''start_point'' = q ''first_station''" by blast
  with ks have some: "list_all (\<lambda>q. q ''start_point'' = q ''first_station'')
        (case fst (select_route ?d (ascii ''Kazan'')) of Inl e \<Rightarrow> [] | Inr rs \<Rightarrow> rs)"
    by (simp add: list_all_iff)
  from r x k same n all m some show ?thesis by (intro conjI)
qed

lemma distinct_map_filter_single:
  assumes "distinct (map f xs)" and "x \<in> set xs"
  shows "filter (\<lambda>y. f y = f x) xs = [x]"
  using assms
proof (induction xs)
  case Nil
  then show ?case by simp
next
  case (Cons a as)
  show ?case
  proof (cases "a = x")
    case True
    with Cons.prems(1) have "f x \<notin> f ` set as" by simp
    then have "\<forall>y\<in>set as. f y \<noteq> f x" by (metis imageI)
    then have "filter (\<lambda>y. f y = f x) as = []"
      by (simp add: filter_empty_conv)
    with True show ?thesis by simp
  next
    case False
    with Cons.prems have "x \<in> set as" "f a \<noteq> f x" by auto
    with Cons show ?thesis by simp
  qed
qed

lemma add_route_twice:
  assumes "fst (add_route d f b) = Inr ()"
    and "fst (add_route (snd (add_route d f b)) f c) = Inr ()"
  shows "\<exists>x r1 r2.
      start_rows (snd (add_route (snd (add_route d f b)) f c)) = start_rows (snd (add_route d f b))
    \<and> route_rows (snd (add_route (snd (add_route d f b)) f c)) = route_rows d @ [r1, r2]
    \<and> x \<in> set (start_rows (snd (add_route d f b))) \<and> start_point x = f
    \<and> route_name_id r1 = name_id x \<and> route_name_id r2 = name_id x
    \<and> second_station r1 = b \<and> second_station r2 = c"
  using assms(1)
proof (cases rule: add_route_returns)
  case first: (existing st rt x xs i)
  from first(3) have x: "x \<in> set (rows st)" "start_point x = f"
    by (auto dest: filter_eq_ConsD)
  from assms(2) show ?thesis
  proof (cases rule: add_route_returns)
    case (existing st' rt' x' xs' i')
    with first x show ?thesis
      by (auto simp add: route_rows_def start_rows_def)
  next
    case (new st' rt' n' i')
    with first show ?thesis by simp
  qed
next
  case first: (new st rt n i)
  from assms(2) show ?thesis
  proof (cases rule: add_route_returns)
    case (existing st' rt' x' xs' i')
    with first show ?thesis
      by (auto simp add: route_rows_def start_rows_def
          intro!: exI [of _ "\<lparr>name_id = n, start_point = f\<rparr>"])
  next
    case (new st' rt' n' i')
    with first show ?thesis by auto
  qed
qed

text \<open>
  C2. Origin texts are unique in every store reached from the initialised empty store by
  the four calls: no two start rows have the same \<^verbatim>\<open>start_point\<close>. \<^verbatim>\<open>add_route\<close>
  looks the start row up by \<open>first\<close> before it inserts, so two calls with the same
  \<open>first\<close> (that return) leave exactly one start row with that text, the second call adds
  no start row, and both route rows carry that row's \<^verbatim>\<open>name_id\<close>.
\<close>

theorem origin_unique:
  "let d = run cs initial_store;
       d1 = snd (add_route d first b);
       d2 = snd (add_route d1 first c) in
   distinct (map start_point (start_rows d))
   \<and> (fst (add_route d first b) = Inr () \<and> fst (add_route d1 first c) = Inr () \<longrightarrow>
        start_rows d2 = start_rows d1
      \<and> (\<exists>x r1 r2. filter (\<lambda>y. start_point y = first) (start_rows d2) = [x]
           \<and> route_rows d2 = route_rows d @ [r1, r2]
           \<and> route_name_id r1 = name_id x \<and> route_name_id r2 = name_id x
           \<and> second_station r1 = b \<and> second_station r2 = c))"
proof -
  define d where "d = run cs initial_store"
  define d1 where "d1 = snd (add_route d first b)"
  define d2 where "d2 = snd (add_route d1 first c)"
  have c: "consistent d"
    unfolding d_def by (rule consistent_reachable)
  then have c2: "consistent d2"
    unfolding d2_def d1_def by (intro consistent_add_route)
  from c have unique: "distinct (map start_point (start_rows d))"
    by (simp add: consistent_def)
  have twice: "start_rows d2 = start_rows d1
      \<and> (\<exists>x r1 r2. filter (\<lambda>y. start_point y = first) (start_rows d2) = [x]
           \<and> route_rows d2 = route_rows d @ [r1, r2]
           \<and> route_name_id r1 = name_id x \<and> route_name_id r2 = name_id x
           \<and> second_station r1 = b \<and> second_station r2 = c)"
    if "fst (add_route d first b) = Inr ()" and "fst (add_route d1 first c) = Inr ()"
  proof -
    from add_route_twice [OF that(1) that(2) [unfolded d1_def]]
    obtain x r1 r2 where same: "start_rows d2 = start_rows d1"
      and routes: "route_rows d2 = route_rows d @ [r1, r2]"
      and x: "x \<in> set (start_rows d1)" "start_point x = first"
      and refs: "route_name_id r1 = name_id x" "route_name_id r2 = name_id x"
        "second_station r1 = b" "second_station r2 = c"
      unfolding d2_def d1_def by blast
    from c2 have "distinct (map start_point (start_rows d2))"
      by (simp add: consistent_def)
    with x same have "filter (\<lambda>y. start_point y = first) (start_rows d2) = [x]"
      using distinct_map_filter_single [of start_point "start_rows d2" x] by simp
    with same routes refs show ?thesis by blast
  qed
  from unique twice show ?thesis
    unfolding Let_def d_def [symmetric] d1_def [symmetric] d2_def [symmetric] by blast
qed

theorem origin_unique_witness:
  "fst (add_route initial_store (ascii ''A'') (ascii ''B'')) = Inr ()
   \<and> fst (add_route (snd (add_route initial_store (ascii ''A'') (ascii ''B'')))
        (ascii ''A'') (ascii ''C'')) = Inr ()
   \<and> (let d = run [] initial_store;
          d1 = snd (add_route d (ascii ''A'') (ascii ''B''));
          d2 = snd (add_route d1 (ascii ''A'') (ascii ''C'')) in
        start_rows d2 = start_rows d1
      \<and> (\<exists>x r1 r2. filter (\<lambda>y. start_point y = ascii ''A'') (start_rows d2) = [x]
           \<and> route_rows d2 = route_rows d @ [r1, r2]
           \<and> route_name_id r1 = name_id x \<and> route_name_id r2 = name_id x
           \<and> second_station r1 = ascii ''B'' \<and> second_station r2 = ascii ''C''))"
proof -
  have h1: "fst (add_route initial_store (ascii ''A'') (ascii ''B'')) = Inr ()"
    by (simp add: one_route)
  have h2: "fst (add_route (snd (add_route initial_store (ascii ''A'') (ascii ''B'')))
        (ascii ''A'') (ascii ''C'')) = Inr ()"
    by (simp add: evaluate)
  note t = origin_unique [of "[]" "ascii ''A''" "ascii ''B''" "ascii ''C''",
      unfolded Let_def run.simps]
  from h1 h2 t show ?thesis
    unfolding Let_def run.simps by blast
qed

subsection \<open>The table\<close>

lemma length_centre: "length (centre w s) = max w (length s)"
  by (simp add: centre_def Let_def)

lemma length_format_row:
  "length (format_row a b c) = max 4 (length a) + max 30 (length b) + max 20 (length c) + 10"
  by (simp add: format_row_def length_centre ascii_def)

lemma length_line: "length line = 64"
  by (simp add: line_def ascii_def)

lemma length_decimal: "n < 10 ^ Suc k \<Longrightarrow> length (decimal n) \<le> Suc k"
proof (induction k arbitrary: n)
  case 0
  then show ?case by (simp add: decimal.simps)
next
  case (Suc k)
  show ?case
  proof (cases "n < 10")
    case True
    then show ?thesis by (simp add: decimal.simps)
  next
    case False
    from Suc.prems have "n div 10 < 10 ^ Suc k" by simp
    then have "length (decimal (n div 10)) \<le> Suc k" by (rule Suc.IH)
    with False show ?thesis by (subst decimal.simps) simp
  qed
qed

lemma length_print_stations: "length (print_stations i routes) = 2 * length routes"
  by (induction routes arbitrary: i) simp_all

lemma print_stations_nth:
  assumes "k < length routes"
  shows "print_stations i routes ! (2 * k) =
       format_row (decimal (i + k)) (dict_get (routes ! k) ''start_point'' [])
         (dict_get (routes ! k) ''second_station'' [])
     \<and> print_stations i routes ! (2 * k + 1) = line"
  using assms
proof (induction routes arbitrary: i k)
  case Nil
  then show ?case by simp
next
  case (Cons station routes)
  show ?case
  proof (cases k)
    case 0
    then show ?thesis by simp
  next
    case (Suc j)
    with Cons.prems have "j < length routes" by simp
    from Cons.IH [OF this, of "Suc i"] Suc show ?thesis by simp
  qed
qed

lemma print_stations_first_station:
  "print_stations i (map (\<lambda>r. r(''first_station'' := v)) routes) = print_stations i routes"
  by (induction routes arbitrary: i) (simp_all add: dict_get_def)

lemma print_stations_width:
  assumes "i + length routes \<le> 10000"
    and "\<forall>r\<in>set routes. length (dict_get r ''start_point'' []) \<le> 30
           \<and> length (dict_get r ''second_station'' []) \<le> 20"
  shows "\<forall>l\<in>set (print_stations i routes). length l = 64"
  using assms
proof (induction routes arbitrary: i)
  case Nil
  then show ?case by simp
next
  case (Cons station routes)
  from Cons.prems(1) have "i < 10 ^ Suc 3" by simp
  then have "length (decimal i) \<le> 4" using length_decimal [of i 3] by simp
  with Cons.prems(2) have "length (format_row (decimal i) (dict_get station ''start_point'' [])
         (dict_get station ''second_station'' [])) = 64"
    by (simp add: length_format_row max_def)
  moreover from Cons.prems have "\<forall>l\<in>set (print_stations (Suc i) routes). length l = 64"
    by (intro Cons.IH) simp_all
  ultimately show ?case by (simp add: length_line)
qed

lemma replicate_numeral: "replicate (numeral k) x = x # replicate (pred_numeral k) x"
  by (simp add: numeral_eq_Suc)

lemmas display_routes_defs = display_routes_def format_row_def centre_def line_def ascii_def
  numero_sign_def mesto_otpravki_def mesto_pribytiya_def row_dict_def dict_get_def Let_def
  replicate_numeral

lemma decimal_digits: "decimal n \<noteq> [] \<and> list_all (\<lambda>c. 48 \<le> c \<and> c \<le> 57) (decimal n)"
proof (induction n rule: decimal.induct)
  case (1 n)
  show ?case
  proof (cases "n < 10")
    case True
    then show ?thesis by (simp add: decimal.simps)
  next
    case False
    have "n mod 10 < 10" by simp
    then have "48 + n mod 10 \<le> 57" by linarith
    with False 1 show ?thesis by (subst (1 2) decimal.simps) simp
  qed
qed

lemma decimal_value: "foldl (\<lambda>a c. 10 * a + (c - 48)) 0 (decimal n) = n"
proof (induction n rule: decimal.induct)
  case (1 n)
  show ?case
  proof (cases "n < 10")
    case True
    then show ?thesis by (simp add: decimal.simps)
  next
    case False
    with 1 show ?thesis by (subst decimal.simps) simp
  qed
qed

lemma decimal_leading: "0 < n \<Longrightarrow> hd (decimal n) \<noteq> 48"
proof (induction n rule: decimal.induct)
  case (1 n)
  show ?case
  proof (cases "n < 10")
    case True
    with 1 show ?thesis by (simp add: decimal.simps)
  next
    case False
    then have "0 < n div 10" by simp
    with False 1 have "hd (decimal (n div 10)) \<noteq> 48" by simp
    moreover have "decimal (n div 10) \<noteq> []" by (simp add: decimal_digits)
    ultimately show ?thesis using False by (subst decimal.simps) simp
  qed
qed

lemma line_code_points:
  "line =
     [43, 45, 45, 45, 45, 45, 45, 43, 45, 45, 45, 45, 45, 45, 45, 45, 45, 45, 45, 45,
          45, 45, 45, 45, 45, 45, 45, 45, 45, 45, 45, 45, 45, 45, 45, 45, 45, 45, 45, 45,
          43, 45, 45, 45, 45, 45, 45, 45, 45, 45, 45, 45, 45, 45, 45, 45, 45, 45, 45, 45,
          45, 45, 45, 43]"
  by (simp add: line_def ascii_def replicate_numeral)

lemma header_code_points:
  "format_row numero_sign mesto_otpravki mesto_pribytiya =
     [124, 32, 32, 8470, 32, 32, 32, 124, 32, 32, 32, 32, 32, 32, 32, 32, 32, 1052,
          1077, 1089, 1090, 1086, 32, 1086, 1090, 1087, 1088, 1072, 1074, 1082, 1080, 32,
          32, 32, 32, 32, 32, 32, 32, 32, 124, 32, 32, 32, 32, 1052, 1077, 1089, 1090,
          1086, 32, 1087, 1088, 1080, 1073, 1099, 1090, 1080, 1103, 32, 32, 32, 32, 124]"
  by (simp add: format_row_def centre_def ascii_def numero_sign_def mesto_otpravki_def
      mesto_pribytiya_def replicate_numeral)

lemma format_row_code_points:
  "format_row a b c =
     [124, 32] @ replicate ((4 - length a) div 2) 32 @ a
       @ replicate (4 - length a - (4 - length a) div 2) 32
     @ [32, 124, 32] @ replicate ((30 - length b) div 2) 32 @ b
       @ replicate (30 - length b - (30 - length b) div 2) 32
     @ [32, 124, 32] @ replicate ((20 - length c) div 2) 32 @ c
       @ replicate (20 - length c - (20 - length c) div 2) 32
     @ [32, 124]"
  by (simp add: format_row_def centre_def ascii_def Let_def)

text \<open>
  C5, as stated, has the header row hold the texts "Origin" and "Destination" and the table
  be of fixed width for every list. The code prints Russian column titles, and a value
  longer than its column widens its row: with a 33-character origin no printed line is
  the English header row, and the data row is longer than the border.
\<close>

theorem display_routes_header_counterexample:
  "format_row numero_sign (ascii ''Origin'') (ascii ''Destination'')
     \<notin> set (display_routes [row_dict (ascii ''Nizhny Novgorod, Moskovsky vokzal'',
          ascii ''Nizhny Novgorod, Moskovsky vokzal'', ascii ''Kazan'')])
   \<and> length (display_routes [row_dict (ascii ''Nizhny Novgorod, Moskovsky vokzal'',
          ascii ''Nizhny Novgorod, Moskovsky vokzal'', ascii ''Kazan'')] ! 3)
     \<noteq> length (display_routes [row_dict (ascii ''Nizhny Novgorod, Moskovsky vokzal'',
          ascii ''Nizhny Novgorod, Moskovsky vokzal'', ascii ''Kazan'')] ! 0)"
  by (simp add: display_routes_defs decimal.simps)

text \<open>
  C5, amended. For every non-empty list of route records \<^verbatim>\<open>display_routes\<close> prints a
  border line, the header row, a border line, and then for the \<open>k\<close>-th record (counting
  from 0) one row followed by a border line. The border and the header are given below by
  their code points: the header cells are U+2116 and the Russian titles "Mesto otpravki"
  (place of departure) and "Mesto pribytiya" (place of arrival). The cells of a row are the
  decimal numeral of \<open>k + 1\<close> (digits only, no leading zero, of that value), the record's
  \<^verbatim>\<open>start_point\<close> and its \<^verbatim>\<open>second_station\<close> (the empty string for a missing key),
  each centred in 4, 30 and 20 columns with the odd space on the right, between the
  separators; a value longer than its column is printed whole and makes its row longer.
  \<^verbatim>\<open>first_station\<close> is not read: changing or removing it changes nothing. Every line
  is 64 characters wide when there are fewer than 10000 records, no origin is longer than
  30 and no destination longer than 20 characters.
\<close>

theorem display_routes_table:
  assumes "routes \<noteq> []"
  shows "length (display_routes routes) = 3 + 2 * length routes
     \<and> display_routes routes ! 0 =
         [43, 45, 45, 45, 45, 45, 45, 43, 45, 45, 45, 45, 45, 45, 45, 45, 45, 45, 45, 45,
          45, 45, 45, 45, 45, 45, 45, 45, 45, 45, 45, 45, 45, 45, 45, 45, 45, 45, 45, 45,
          43, 45, 45, 45, 45, 45, 45, 45, 45, 45, 45, 45, 45, 45, 45, 45, 45, 45, 45, 45,
          45, 45, 45, 43]
     \<and> display_routes routes ! 1 =
         [124, 32, 32, 8470, 32, 32, 32, 124, 32, 32, 32, 32, 32, 32, 32, 32, 32, 1052,
          1077, 1089, 1090, 1086, 32, 1086, 1090, 1087, 1088, 1072, 1074, 1082, 1080, 32,
          32, 32, 32, 32, 32, 32, 32, 32, 124, 32, 32, 32, 32, 1052, 1077, 1089, 1090,
          1086, 32, 1087, 1088, 1080, 1073, 1099, 1090, 1080, 1103, 32, 32, 32, 32, 124]
     \<and> display_routes routes ! 2 = display_routes routes ! 0
     \<and> (\<forall>k<length routes.
          (let number = decimal (k + 1);
               origin = (case (routes ! k) ''start_point'' of None \<Rightarrow> [] | Some v \<Rightarrow> v);
               destination = (case (routes ! k) ''second_station'' of None \<Rightarrow> [] | Some v \<Rightarrow> v)
           in display_routes routes ! (3 + 2 * k) =
                [124, 32] @ replicate ((4 - length number) div 2) 32 @ number
                  @ replicate (4 - length number - (4 - length number) div 2) 32
                @ [32, 124, 32] @ replicate ((30 - length origin) div 2) 32 @ origin
                  @ replicate (30 - length origin - (30 - length origin) div 2) 32
                @ [32, 124, 32] @ replicate ((20 - length destination) div 2) 32 @ destination
                  @ replicate (20 - length destination - (20 - length destination) div 2) 32
                @ [32, 124]
              \<and> number \<noteq> [] \<and> list_all (\<lambda>c. 48 \<le> c \<and> c \<le> 57) number \<and> hd number \<noteq> 48
              \<and> foldl (\<lambda>a c. 10 * a + (c - 48)) 0 number = k + 1
              \<and> length (display_routes routes ! (3 + 2 * k)) =
                  10 + max 4 (length number) + max 30 (length origin)
                    + max 20 (length destination))
        \<and> display_routes routes ! (4 + 2 * k) = display_routes routes ! 0)
     \<and> display_routes (map (\<lambda>r. r(''first_station'' := v)) routes) = display_routes routes
     \<and> (length routes < 10000
          \<and> (\<forall>r\<in>set routes.
                length (case r ''start_point'' of None \<Rightarrow> [] | Some v \<Rightarrow> v) \<le> 30
              \<and> length (case r ''second_station'' of None \<Rightarrow> [] | Some v \<Rightarrow> v) \<le> 20)
        \<longrightarrow> list_all (\<lambda>l. length l = 64) (display_routes routes))"
proof -
  have out: "display_routes routes =
      [line, format_row numero_sign mesto_otpravki mesto_pribytiya, line]
        @ print_stations 1 routes"
    using assms by (simp add: display_routes_def)
  have len: "length (display_routes routes) = 3 + 2 * length routes"
    by (simp add: out length_print_stations)
  have top: "display_routes routes ! 0 = line" "display_routes routes ! 2 = line"
    by (simp_all add: out)
  have head: "display_routes routes ! 1 = format_row numero_sign mesto_otpravki mesto_pribytiya"
    by (simp add: out)
  have data: "(let number = decimal (k + 1);
               origin = (case (routes ! k) ''start_point'' of None \<Rightarrow> [] | Some v \<Rightarrow> v);
               destination = (case (routes ! k) ''second_station'' of None \<Rightarrow> [] | Some v \<Rightarrow> v)
           in display_routes routes ! (3 + 2 * k) =
                [124, 32] @ replicate ((4 - length number) div 2) 32 @ number
                  @ replicate (4 - length number - (4 - length number) div 2) 32
                @ [32, 124, 32] @ replicate ((30 - length origin) div 2) 32 @ origin
                  @ replicate (30 - length origin - (30 - length origin) div 2) 32
                @ [32, 124, 32] @ replicate ((20 - length destination) div 2) 32 @ destination
                  @ replicate (20 - length destination - (20 - length destination) div 2) 32
                @ [32, 124]
              \<and> number \<noteq> [] \<and> list_all (\<lambda>c. 48 \<le> c \<and> c \<le> 57) number \<and> hd number \<noteq> 48
              \<and> foldl (\<lambda>a c. 10 * a + (c - 48)) 0 number = k + 1
              \<and> length (display_routes routes ! (3 + 2 * k)) =
                  10 + max 4 (length number) + max 30 (length origin)
                    + max 20 (length destination))
        \<and> display_routes routes ! (4 + 2 * k) = display_routes routes ! 0"
    if "k < length routes" for k
  proof -
    have "display_routes routes ! (3 + 2 * k) = print_stations 1 routes ! (2 * k)"
      by (simp add: out nth_append numeral_3_eq_3)
    with print_stations_nth [OF that, of 1]
    have row: "display_routes routes ! (3 + 2 * k) =
        format_row (decimal (k + 1)) (dict_get (routes ! k) ''start_point'' [])
          (dict_get (routes ! k) ''second_station'' [])"
      by simp
    have "display_routes routes ! (4 + 2 * k) = print_stations 1 routes ! (2 * k + 1)"
      by (simp add: out nth_append numeral_3_eq_3 eval_nat_numeral)
    with print_stations_nth [OF that, of 1] top
    have border: "display_routes routes ! (4 + 2 * k) = display_routes routes ! 0"
      by simp
    have wide: "length (display_routes routes ! (3 + 2 * k)) =
        10 + max 4 (length (decimal (k + 1)))
          + max 30 (length (dict_get (routes ! k) ''start_point'' []))
          + max 20 (length (dict_get (routes ! k) ''second_station'' []))"
      by (simp add: row length_format_row)
    have digits: "decimal (k + 1) \<noteq> []"
      "list_all (\<lambda>c. 48 \<le> c \<and> c \<le> 57) (decimal (k + 1))"
      "hd (decimal (k + 1)) \<noteq> 48"
      "foldl (\<lambda>a c. 10 * a + (c - 48)) 0 (decimal (k + 1)) = k + 1"
      using decimal_digits [of "k + 1"] decimal_leading [of "k + 1"] decimal_value [of "k + 1"]
      by simp_all
    from row [unfolded format_row_code_points] wide border digits show ?thesis
      unfolding Let_def dict_get_def by (intro conjI)
  qed
  have unread: "display_routes (map (\<lambda>r. r(''first_station'' := v)) routes) = display_routes routes"
    by (simp add: display_routes_def print_stations_first_station)
  have width: "list_all (\<lambda>l. length l = 64) (display_routes routes)"
    if "length routes < 10000
          \<and> (\<forall>r\<in>set routes.
                length (case r ''start_point'' of None \<Rightarrow> [] | Some v \<Rightarrow> v) \<le> 30
              \<and> length (case r ''second_station'' of None \<Rightarrow> [] | Some v \<Rightarrow> v) \<le> 20)"
  proof -
    from that have "\<forall>l\<in>set (print_stations 1 routes). length l = 64"
      by (intro print_stations_width) (simp_all add: dict_get_def)
    moreover have "length (format_row numero_sign mesto_otpravki mesto_pribytiya) = 64"
      by (simp add: length_format_row numero_sign_def mesto_otpravki_def mesto_pribytiya_def)
    ultimately show ?thesis by (simp add: out length_line list_all_iff)
  qed
  from len top(1) [unfolded line_code_points] top head [unfolded header_code_points] data
    unread width
  show ?thesis by simp
qed

theorem display_routes_table_witness:
  "[row_dict (ascii ''Moscow'', ascii ''Tver'', ascii ''Kazan'')] \<noteq> []
   \<and> length (display_routes [row_dict (ascii ''Moscow'', ascii ''Tver'', ascii ''Kazan'')]) = 5
   \<and> display_routes [row_dict (ascii ''Moscow'', ascii ''Tver'', ascii ''Kazan'')] ! 3 =
         [124, 32, 32, 49, 32, 32, 32, 124, 32, 32, 32, 32, 32, 32, 32, 32, 32, 32, 32, 32,
          32, 77, 111, 115, 99, 111, 119, 32, 32, 32, 32, 32, 32, 32, 32, 32, 32, 32, 32,
          32, 124, 32, 32, 32, 32, 32, 32, 32, 32, 75, 97, 122, 97, 110, 32, 32, 32, 32,
          32, 32, 32, 32, 32, 124]
   \<and> list_all (\<lambda>l. length l = 64)
        (display_routes [row_dict (ascii ''Moscow'', ascii ''Tver'', ascii ''Kazan'')])"
proof -
  let ?routes = "[row_dict (ascii ''Moscow'', ascii ''Tver'', ascii ''Kazan'')]"
  have ne: "?routes \<noteq> []" by simp
  have fits: "length ?routes < 10000
      \<and> (\<forall>r\<in>set ?routes.
            length (case r ''start_point'' of None \<Rightarrow> [] | Some v \<Rightarrow> v) \<le> 30
          \<and> length (case r ''second_station'' of None \<Rightarrow> [] | Some v \<Rightarrow> v) \<le> 20)"
    by (simp add: row_dict_fields ascii_def)
  note t = display_routes_table [OF ne, of None]
  from t have len: "length (display_routes ?routes) = 3 + 2 * length ?routes"
    by (rule conjunct1)
  from t have "\<forall>k<length ?routes.
          (let number = decimal (k + 1);
               origin = (case (?routes ! k) ''start_point'' of None \<Rightarrow> [] | Some v \<Rightarrow> v);
               destination = (case (?routes ! k) ''second_station'' of None \<Rightarrow> [] | Some v \<Rightarrow> v)
           in display_routes ?routes ! (3 + 2 * k) =
                [124, 32] @ replicate ((4 - length number) div 2) 32 @ number
                  @ replicate (4 - length number - (4 - length number) div 2) 32
                @ [32, 124, 32] @ replicate ((30 - length origin) div 2) 32 @ origin
                  @ replicate (30 - length origin - (30 - length origin) div 2) 32
                @ [32, 124, 32] @ replicate ((20 - length destination) div 2) 32 @ destination
                  @ replicate (20 - length destination - (20 - length destination) div 2) 32
                @ [32, 124]
              \<and> number \<noteq> [] \<and> list_all (\<lambda>c. 48 \<le> c \<and> c \<le> 57) number \<and> hd number \<noteq> 48
              \<and> foldl (\<lambda>a c. 10 * a + (c - 48)) 0 number = k + 1
              \<and> length (display_routes ?routes ! (3 + 2 * k)) =
                  10 + max 4 (length number) + max 30 (length origin)
                    + max 20 (length destination))
        \<and> display_routes ?routes ! (4 + 2 * k) = display_routes ?routes ! 0"
    by blast
  then have row: "display_routes ?routes ! 3 =
         [124, 32, 32, 49, 32, 32, 32, 124, 32, 32, 32, 32, 32, 32, 32, 32, 32, 32, 32, 32,
          32, 77, 111, 115, 99, 111, 119, 32, 32, 32, 32, 32, 32, 32, 32, 32, 32, 32, 32,
          32, 124, 32, 32, 32, 32, 32, 32, 32, 32, 75, 97, 122, 97, 110, 32, 32, 32, 32,
          32, 32, 32, 32, 32, 124]"
    by (simp add: Let_def row_dict_fields decimal.simps ascii_def replicate_numeral)
  from t fits have all: "list_all (\<lambda>l. length l = 64) (display_routes ?routes)"
    by blast
  from ne len row all show ?thesis by simp
qed

end
